theory Spec2Isabelle
  imports Main
begin

section \<open>The unified LLM invocation layer\<close>

text \<open>
  A shallow embedding of \<^verbatim>\<open>packages/core/src/services/ai/index.ts\<close> (the function
  \<^verbatim>\<open>ai\<close>) and of \<^verbatim>\<open>handleAICallAPIError\<close>.

  Conventions of the embedding.
  \<^item> A JavaScript object whose set of keys matters (the configuration, the argument of
    \<^verbatim>\<open>streamText\<close>, the success value) is a map from key to value.
  \<^item> An exception is a value: a computation that may throw returns \<open>thrown + 'a\<close>,
    with \<open>Inl\<close> the thrown value.
  \<^item> Effects are explicit: every function returns the list of events it caused
    (console output, calls of the collaborators, observers attached to promises)
    together with its result.
  \<^item> The collaborators that are imported from other modules (\<^verbatim>\<open>applyAllRules\<close>,
    \<^verbatim>\<open>createProvider\<close>, \<^verbatim>\<open>getLanguageModel\<close>, \<^verbatim>\<open>buildTools\<close> and the SDK's
    \<^verbatim>\<open>streamText\<close>) are parameters; each may return or throw.
  \<^item> A name of the source that is a keyword of Isabelle carries a prime
    (\<open>text'\<close>, \<open>file'\<close>, \<open>context'\<close>, \<open>output'\<close>).
\<close>

subsection \<open>Data\<close>

datatype json =
  JNull | JBool bool | JNum int | JStr string | JArr "json list" | JObj "(string \<times> json) list"

text \<open>\<^verbatim>\<open>VercelConfig\<close>: an object with the keys \<^verbatim>\<open>model\<close>, \<^verbatim>\<open>tools\<close>,
  \<^verbatim>\<open>providerOptions\<close>, \<^verbatim>\<open>schema\<close> and any further setting. An absent key reads as
  \<^verbatim>\<open>undefined\<close>, here \<open>None\<close>.\<close>

type_synonym VercelConfig = "string \<rightharpoonup> json"

text \<open>\<^verbatim>\<open>JSONSchema7\<close> is an object type: a schema is the list of its members.\<close>

type_synonym JSONSchema7 = "(string \<times> json) list"

text \<open>The enum \<^verbatim>\<open>Providers\<close> is a string enum.\<close>

type_synonym Providers = string

text \<open>An opaque host object: a telemetry context, an adapter, a language model, a tool
  set, an abort signal, a stream or a promise.\<close>

datatype handle = Handle nat

text \<open>\<^verbatim>\<open>ProviderApiKey\<close>. The source reads it as
  \<^verbatim>\<open>const { provider: providerType, token: apiKey, url } = provider\<close>; the fields bear the
  names of these bindings.\<close>

record ProviderApiKey =
  providerType :: Providers
  apiKey :: string
  url :: "string option"

datatype StreamType = TextType | ObjectType

text \<open>\<^verbatim>\<open>ObjectOutput = 'object' | 'array' | 'no-schema' | undefined\<close>; \<^verbatim>\<open>undefined\<close> is
  \<open>None\<close> of \<open>ObjectOutput option\<close>.\<close>

datatype ObjectOutput = OutputObject | OutputArray | OutputNoSchema

text \<open>Image and file data: \<^verbatim>\<open>string | Uint8Array | Buffer | ArrayBuffer | URL\<close>, or
  absent.\<close>

datatype DataContent =
  NoData
  | StringData string
  | BufferData "nat list"
  | Uint8ArrayData "nat list"
  | ArrayBufferData "nat list"
  | URLData string

text \<open>A content part as the source reads it (through \<^verbatim>\<open>any\<close>): a bag of properties,
  each of which may be absent.\<close>

record ContentPart =
  type :: string
  text' :: "string option"
  image :: DataContent
  file' :: DataContent
  data :: DataContent
  mimeType :: "string option"

datatype MessageContent =
  ContentArray "ContentPart list"
  | ContentString string
  | ContentOther "json option"

record Message =
  role :: string
  content :: MessageContent

text \<open>A rule violation and the result of \<^verbatim>\<open>applyAllRules\<close>.\<close>

record ProviderRule =
  rule :: string
  ruleMessage :: string

record AppliedRules =
  rules :: "ProviderRule list"
  messages :: "Message list"
  config :: VercelConfig

datatype RunErrorCodes = AIProviderConfigError | AIRunError | Unknown

record ChainError =
  code :: RunErrorCodes
  message :: string

datatype ('a, 'e) TypedResult = Result_ok 'a | Result_error 'e

subsection \<open>Thrown values\<close>

text \<open>What a \<^verbatim>\<open>catch\<close> can receive. \<open>APICallError\<close> carries the message, the response
  body (optional in the SDK's class), the URL and the request body values. \<open>Error\<close> is
  any other instance of \<^verbatim>\<open>Error\<close>. \<open>Thrown\<close> is a value that is not an error object;
  the model covers the values whose conversion to a string in a template literal is
  defined without running user code: \<^verbatim>\<open>undefined\<close>, \<^verbatim>\<open>null\<close>, booleans, strings and
  plain objects.\<close>

datatype primitive = Undefined | Null | BooleanValue bool | StringValue string | PlainObject

datatype thrown =
  APICallError string "string option" string json
  | Error string
  | Thrown primitive

text \<open>\<^verbatim>\<open>`${v}`\<close> for these values.\<close>

fun template :: "primitive \<Rightarrow> string" where
  "template Undefined = ''undefined''"
| "template Null = ''null''"
| "template (BooleanValue b) = (if b then ''true'' else ''false'')"
| "template (StringValue s) = s"
| "template PlainObject = ''[object Object]''"

text \<open>\<^verbatim>\<open>`${s}`\<close> for an optional string.\<close>

fun template_opt :: "string option \<Rightarrow> string" where
  "template_opt None = ''undefined''"
| "template_opt (Some s) = s"

subsection \<open>Events\<close>

text \<open>The snapshot of a content part that the diagnostic channel prints:
  \<^verbatim>\<open>{ type, text?, imageInfo?, fileInfo? }\<close>. The field \<^verbatim>\<open>size\<close> is \<open>size'\<close>.\<close>

record DataInfo =
  present :: bool
  dataType :: string
  size' :: nat

record ImageInfo = DataInfo +
  isURL :: bool
  isBuffer :: bool
  isUint8Array :: bool
  preview :: string

record FileInfo = DataInfo +
  loggedMimeType :: "string option"

record LoggedContent =
  loggedType :: string
  loggedText :: "string option"
  imageInfo :: "ImageInfo option"
  fileInfo :: "FileInfo option"

datatype LoggedMessageContent =
  LoggedArray "LoggedContent list"
  | LoggedString string
  | LoggedOther "json option"

record LoggedMessage =
  loggedRole :: string
  loggedContent :: LoggedMessageContent

text \<open>One argument of a \<^verbatim>\<open>console.log\<close> call. \<^verbatim>\<open>JSON.stringify(x, null, 2)\<close> is
  represented by the value \<open>x\<close> it prints.\<close>

datatype ConsoleArg =
  Literal string
  | NumberValue nat
  | JsonValue "json option"
  | MessagesJson "LoggedMessage list"
  | ConfigJson VercelConfig
  | Caught thrown

text \<open>The argument object of \<^verbatim>\<open>streamText\<close> and the values of its keys: a value
  spread from the configuration, or one of the values the call sets itself.\<close>

datatype ArgValue =
  ConfigField json
  | LanguageModel handle
  | Prompt "string option"
  | MessagesArg "Message list"
  | Tools handle
  | AbortSignal "handle option"
  | ProviderOptions "json option"
  | Telemetry bool
  | SmoothStream
  | OutputObjectSchema "JSONSchema7 option"

type_synonym StreamTextArgs = "string \<rightharpoonup> ArgValue"

text \<open>\<^verbatim>\<open>StreamTextResult\<close>: reading a property of the stream object gives a host
  object (a stream or a promise).\<close>

type_synonym StreamTextResult = "string \<Rightarrow> handle"

type_synonym streamTextFn = "StreamTextArgs \<Rightarrow> thrown + StreamTextResult"

text \<open>The success value of \<^verbatim>\<open>ai\<close>, an object literal.\<close>

datatype ReturnValue =
  ResultTypeTag StreamType
  | ProviderName Providers
  | StreamField handle

type_synonym AIReturn = "string \<rightharpoonup> ReturnValue"

text \<open>A call of a collaborator; the call of \<^verbatim>\<open>streamText\<close> carries its argument.\<close>

datatype collaborator =
  ApplyAllRules | CreateProvider | GetLanguageModel | BuildTools | StreamText StreamTextArgs

datatype event =
  ConsoleLog "ConsoleArg list"
  | Invoke collaborator
  | Observe string

text \<open>The collaborators a run called, in order, and whether an event is a dispatch to
  the model.\<close>

fun invocations :: "event list \<Rightarrow> collaborator list" where
  "invocations [] = []"
| "invocations (Invoke c # es) = c # invocations es"
| "invocations (e # es) = invocations es"

fun dispatched :: "event \<Rightarrow> bool" where
  "dispatched (Invoke (StreamText args)) = True"
| "dispatched e = False"

text \<open>The imported collaborators. \<^verbatim>\<open>createProvider\<close> and \<^verbatim>\<open>buildTools\<close> return a typed
  result; every collaborator may throw.\<close>

record collaborators =
  applyAllRules :: "Providers \<Rightarrow> Message list \<Rightarrow> VercelConfig \<Rightarrow> thrown + AppliedRules"
  createProvider :: "handle \<Rightarrow> Message list \<Rightarrow> ProviderApiKey \<Rightarrow> string \<Rightarrow> string option
    \<Rightarrow> VercelConfig \<Rightarrow> thrown + (handle, ChainError) TypedResult"
  getLanguageModel :: "handle \<Rightarrow> ProviderApiKey \<Rightarrow> VercelConfig \<Rightarrow> json option \<Rightarrow> thrown + handle"
  buildTools :: "json option \<Rightarrow> thrown + (handle, ChainError) TypedResult"
  originalStreamText :: streamTextFn

text \<open>\<^verbatim>\<open>Partial<AISDKProvider>\<close>: the key \<^verbatim>\<open>streamText\<close> may be absent.\<close>

record PartialAISDKProvider =
  streamText :: "streamTextFn option"

text \<open>The argument object of \<^verbatim>\<open>ai\<close>. The source binds \<^verbatim>\<open>messages\<close> as
  \<^verbatim>\<open>originalMessages\<close> and \<^verbatim>\<open>config\<close> as \<^verbatim>\<open>originalConfig\<close>.\<close>

record ai_args =
  context' :: handle
  provider :: ProviderApiKey
  prompt :: "string option"
  originalMessages :: "Message list"
  originalConfig :: VercelConfig
  schema :: "JSONSchema7 option"
  output' :: "ObjectOutput option"
  aiSdkProvider :: "PartialAISDKProvider option"
  abortSignal :: "handle option"

subsection \<open>The diagnostic snapshot\<close>

definition typeof :: "DataContent \<Rightarrow> string" where
  "typeof d = (case d of NoData \<Rightarrow> ''undefined'' | StringData s \<Rightarrow> ''string'' | _ \<Rightarrow> ''object'')"

text \<open>\<^verbatim>\<open>!!d\<close>: only \<^verbatim>\<open>undefined\<close> and the empty string are falsy.\<close>

definition truthy :: "DataContent \<Rightarrow> bool" where
  "truthy d = (case d of NoData \<Rightarrow> False | StringData s \<Rightarrow> s \<noteq> [] | _ \<Rightarrow> True)"

definition startsWith :: "string \<Rightarrow> string \<Rightarrow> bool" where
  "startsWith s p = (take (length p) s = p)"

text \<open>\<^verbatim>\<open>d?.length\<close> and \<^verbatim>\<open>d?.byteLength\<close>; \<open>None\<close> is \<^verbatim>\<open>undefined\<close>.\<close>

definition length_of :: "DataContent \<Rightarrow> nat option" where
  "length_of d = (case d of
      StringData s \<Rightarrow> Some (length s)
    | BufferData b \<Rightarrow> Some (length b)
    | Uint8ArrayData b \<Rightarrow> Some (length b)
    | _ \<Rightarrow> None)"

definition byteLength_of :: "DataContent \<Rightarrow> nat option" where
  "byteLength_of d = (case d of
      BufferData b \<Rightarrow> Some (length b)
    | Uint8ArrayData b \<Rightarrow> Some (length b)
    | ArrayBufferData b \<Rightarrow> Some (length b)
    | _ \<Rightarrow> None)"

text \<open>\<^verbatim>\<open>a || b\<close> on an optional number whose fallback is a number.\<close>

definition or_else :: "nat option \<Rightarrow> nat \<Rightarrow> nat" where
  "or_else a b = (case a of None \<Rightarrow> b | Some n \<Rightarrow> if n = 0 then b else n)"

text \<open>\<^verbatim>\<open>d?.length || d?.byteLength || (typeof d === 'string' ? d.length : 0)\<close>\<close>

definition data_size :: "DataContent \<Rightarrow> nat" where
  "data_size d =
     or_else (length_of d)
       (or_else (byteLength_of d) (case d of StringData s \<Rightarrow> length s | _ \<Rightarrow> 0))"

text \<open>\<^verbatim>\<open>t?.substring(0, 100) + ((t?.length > 100) ? '...' : '')\<close>; with \<^verbatim>\<open>t\<close> undefined
  the sum is \<^verbatim>\<open>undefined + ''\<close>.\<close>

definition text_preview :: "string option \<Rightarrow> string" where
  "text_preview t = (case t of
      None \<Rightarrow> ''undefined''
    | Some s \<Rightarrow> take 100 s @ (if length s > 100 then ''...'' else ''''))"

definition image_info :: "DataContent \<Rightarrow> ImageInfo" where
  "image_info imageData =
     \<lparr> present = truthy imageData,
       dataType = typeof imageData,
       size' = data_size imageData,
       isURL = (case imageData of
           StringData s \<Rightarrow> startsWith s ''http'' \<or> startsWith s ''data:''
         | _ \<Rightarrow> False),
       isBuffer = (case imageData of BufferData b \<Rightarrow> True | _ \<Rightarrow> False),
       isUint8Array = (case imageData of
           BufferData b \<Rightarrow> True | Uint8ArrayData b \<Rightarrow> True | _ \<Rightarrow> False),
       preview = (case imageData of
           StringData s \<Rightarrow>
             if startsWith s ''http'' \<or> startsWith s ''data:'' then s
             else take 100 s @ ''...''
         | _ \<Rightarrow> ''Binary data'') \<rparr>"

definition file_info :: "DataContent \<Rightarrow> string option \<Rightarrow> FileInfo" where
  "file_info fileData mt =
     \<lparr> present = truthy fileData,
       dataType = typeof fileData,
       size' = data_size fileData,
       loggedMimeType = mt \<rparr>"

text \<open>The first snapshot (lines 114--145): the file data is \<^verbatim>\<open>c.file\<close>.\<close>

definition debug_original_content :: "ContentPart \<Rightarrow> LoggedContent" where
  "debug_original_content c =
     (if type c = ''text'' then
        \<lparr> loggedType = type c, loggedText = Some (text_preview (text' c)),
          imageInfo = None, fileInfo = None \<rparr>
      else if type c = ''image'' then
        \<lparr> loggedType = type c, loggedText = None,
          imageInfo = Some (image_info (image c)), fileInfo = None \<rparr>
      else if type c = ''file'' then
        \<lparr> loggedType = type c, loggedText = None,
          imageInfo = None, fileInfo = Some (file_info (file' c) (mimeType c)) \<rparr>
      else
        \<lparr> loggedType = type c, loggedText = None, imageInfo = None, fileInfo = None \<rparr>)"

text \<open>The second snapshot (lines 200--231): the file data is \<^verbatim>\<open>c.data || c.file\<close>.\<close>

definition debug_converted_content :: "ContentPart \<Rightarrow> LoggedContent" where
  "debug_converted_content c =
     (if type c = ''text'' then
        \<lparr> loggedType = type c, loggedText = Some (text_preview (text' c)),
          imageInfo = None, fileInfo = None \<rparr>
      else if type c = ''image'' then
        \<lparr> loggedType = type c, loggedText = None,
          imageInfo = Some (image_info (image c)), fileInfo = None \<rparr>
      else if type c = ''file'' then
        \<lparr> loggedType = type c, loggedText = None,
          imageInfo = None,
          fileInfo = Some (file_info (if truthy (data c) then data c else file' c) (mimeType c)) \<rparr>
      else
        \<lparr> loggedType = type c, loggedText = None, imageInfo = None, fileInfo = None \<rparr>)"

definition debug_message :: "(ContentPart \<Rightarrow> LoggedContent) \<Rightarrow> Message \<Rightarrow> LoggedMessage" where
  "debug_message f msg =
     \<lparr> loggedRole = role msg,
       loggedContent = (case content msg of
           ContentArray cs \<Rightarrow> LoggedArray (map f cs)
         | ContentString s \<Rightarrow> LoggedString (take 100 s @ (if length s > 100 then ''...'' else ''''))
         | ContentOther v \<Rightarrow> LoggedOther v) \<rparr>"

text \<open>The console output of the two snapshots (lines 108--147 and 197--233).\<close>

definition request_debug_info :: "ai_args \<Rightarrow> event list" where
  "request_debug_info a =
     [ ConsoleLog [Literal ''\<newline>=== AI Request Debug Info ===''],
       ConsoleLog [Literal ''Provider:'', Literal (providerType (provider a))],
       ConsoleLog [Literal ''Model:'', JsonValue (originalConfig a ''model'')],
       ConsoleLog [Literal ''Messages count:'', NumberValue (length (originalMessages a))],
       ConsoleLog [Literal ''Messages:'',
         MessagesJson (map (debug_message debug_original_content) (originalMessages a))],
       ConsoleLog [Literal ''Config:'', ConfigJson (originalConfig a)] ]"

definition converted_debug_info :: "ai_args \<Rightarrow> AppliedRules \<Rightarrow> event list" where
  "converted_debug_info a r =
     [ ConsoleLog [Literal ''\<newline>=== Converted Messages for Provider ===''],
       ConsoleLog [Literal ''Messages after rules:'',
         MessagesJson (map (debug_message debug_converted_content) (messages r))],
       ConsoleLog [Literal ''\<newline>=== Sending to Provider:'', Literal (providerType (provider a)),
         Literal ''Model:'', JsonValue (config r ''model''), Literal ''===''] ]"

subsection \<open>The Error Translator\<close>

text \<open>\<^verbatim>\<open>handleAICallAPIError\<close>. The flag is read from the environment:
  \<^verbatim>\<open>process.env.DEBUG_AI === 'true'\<close>.\<close>

definition isApiError :: "thrown \<Rightarrow> bool" where
  "isApiError e = (case e of APICallError m b u rq \<Rightarrow> True | _ \<Rightarrow> False)"

definition api_error_details :: "thrown \<Rightarrow> event list" where
  "api_error_details e = (case e of
      APICallError m b u rq \<Rightarrow>
        [ ConsoleLog [Literal ''\<newline>=== AI API Error Details ===''],
          ConsoleLog [Literal ''Message:'', Literal m],
          ConsoleLog [Literal ''Response Body:'', Literal (template_opt b)],
          ConsoleLog [Literal ''URL:'', Literal u],
          ConsoleLog [Literal ''Request Body:'', JsonValue (Some rq)],
          ConsoleLog [Literal ''Full Error:'', Caught e] ]
    | _ \<Rightarrow> [])"

definition handleAICallAPIError ::
    "string option \<Rightarrow> thrown \<Rightarrow> event list \<times> ('a, ChainError) TypedResult" where
  "handleAICallAPIError DEBUG_AI e =
     (let debugAI = (DEBUG_AI = Some ''true'') in
      ( if debugAI \<and> isApiError e then api_error_details e else [],
        Result_error
          \<lparr> code = AIRunError,
            message = (case e of
                APICallError m b u rq \<Rightarrow>
                  ''Error: '' @ m @ '' and response body: '' @ template_opt b
              | Error m \<Rightarrow> ''Unknown error: '' @ m
              | Thrown v \<Rightarrow> ''Unknown error: '' @ template v) \<rparr> ))"

subsection \<open>The Invocation Orchestrator\<close>

text \<open>\<^verbatim>\<open>xs.join(sep)\<close>\<close>

fun join :: "string \<Rightarrow> string list \<Rightarrow> string" where
  "join sep [] = ''''"
| "join sep [x] = x"
| "join sep (x # y # ys) = x @ sep @ join sep (y # ys)"

text \<open>The message of the validation failure (lines 160--162).\<close>

definition rule_violations_message :: "ProviderRule list \<Rightarrow> string" where
  "rule_violations_message rs =
     ''There are rule violations:\<newline>'' @ join ''\<newline>'' (map (\<lambda>r. ''- '' @ ruleMessage r) rs)"

text \<open>\<^verbatim>\<open>schema && !!output && output !== 'no-schema'\<close> (line 193) and the tag it
  selects (line 194).\<close>

definition useSchema :: "JSONSchema7 option \<Rightarrow> ObjectOutput option \<Rightarrow> bool" where
  "useSchema sch out = (sch \<noteq> None \<and> out \<noteq> None \<and> out \<noteq> Some OutputNoSchema)"

definition resultType :: "JSONSchema7 option \<Rightarrow> ObjectOutput option \<Rightarrow> StreamType" where
  "resultType sch out = (if useSchema sch out then ObjectType else TextType)"

text \<open>The argument of \<^verbatim>\<open>streamText\<close> (lines 236--249): the configuration without its
  key \<^verbatim>\<open>schema\<close> is spread first; the keys written after the spread replace a key of
  the same name.\<close>

definition streamText_args ::
    "VercelConfig \<Rightarrow> handle \<Rightarrow> string option \<Rightarrow> Message list \<Rightarrow> handle \<Rightarrow> handle option
      \<Rightarrow> JSONSchema7 option \<Rightarrow> ObjectOutput option \<Rightarrow> StreamTextArgs" where
  "streamText_args cfg languageModel p msgs tools sig sch out =
     (map_option ConfigField \<circ> (cfg |` (- {''schema''})))
       (''model'' \<mapsto> LanguageModel languageModel,
        ''prompt'' \<mapsto> Prompt p,
        ''messages'' \<mapsto> MessagesArg msgs,
        ''tools'' \<mapsto> Tools tools,
        ''abortSignal'' \<mapsto> AbortSignal sig,
        ''providerOptions'' \<mapsto> ProviderOptions (cfg ''providerOptions''),
        ''experimental_telemetry'' \<mapsto> Telemetry False,
        ''experimental_transform'' \<mapsto> SmoothStream,
        ''experimental_output'' \<mapsto> OutputObjectSchema (if useSchema sch out then sch else None))"

text \<open>The success value (lines 264--276).\<close>

definition ai_return :: "StreamType \<Rightarrow> Providers \<Rightarrow> StreamTextResult \<Rightarrow> AIReturn" where
  "ai_return t name result =
     [ ''type'' \<mapsto> ResultTypeTag t,
       ''providerName'' \<mapsto> ProviderName name,
       ''fullStream'' \<mapsto> StreamField (result ''fullStream''),
       ''text'' \<mapsto> StreamField (result ''text''),
       ''reasoning'' \<mapsto> StreamField (result ''reasoning''),
       ''usage'' \<mapsto> StreamField (result ''usage''),
       ''toolCalls'' \<mapsto> StreamField (result ''toolCalls''),
       ''providerMetadata'' \<mapsto> StreamField (result ''providerMetadata''),
       ''sources'' \<mapsto> StreamField (result ''sources''),
       ''finishReason'' \<mapsto> StreamField (result ''finishReason''),
       ''response'' \<mapsto> StreamField (result ''response'') ]"

text \<open>The body of the \<^verbatim>\<open>try\<close> block (lines 107--276). \<open>Inl e\<close>: the block threw
  \<open>e\<close>; \<open>Inr r\<close>: it reached \<^verbatim>\<open>return r\<close>.\<close>

definition ai_try ::
    "bool \<Rightarrow> streamTextFn \<Rightarrow> collaborators \<Rightarrow> ai_args
      \<Rightarrow> event list \<times> (thrown + (AIReturn, ChainError) TypedResult)" where
  "ai_try debugAI streamTextFn deps a =
     (let t1 = (if debugAI then request_debug_info a else []) @ [Invoke ApplyAllRules] in
      case applyAllRules deps (providerType (provider a)) (originalMessages a) (originalConfig a) of
        Inl e \<Rightarrow> (t1, Inl e)
      | Inr r \<Rightarrow>
          if length (rules r) > 0 then
            (t1, Inr (Result_error
               \<lparr> code = AIRunError, message = rule_violations_message (rules r) \<rparr>))
          else
            (let t2 = t1 @ [Invoke CreateProvider] in
             case createProvider deps (context' a) (messages r) (provider a)
                    (apiKey (provider a)) (url (provider a)) (config r) of
               Inl e \<Rightarrow> (t2, Inl e)
             | Inr (Result_error err) \<Rightarrow> (t2, Inr (Result_error err))
             | Inr (Result_ok llmProvider) \<Rightarrow>
                 (let t3 = t2 @ [Invoke GetLanguageModel] in
                  case getLanguageModel deps llmProvider (provider a) (config r)
                         (config r ''model'') of
                    Inl e \<Rightarrow> (t3, Inl e)
                  | Inr languageModel \<Rightarrow>
                      (let t4 = t3 @ [Invoke BuildTools] in
                       case buildTools deps (config r ''tools'') of
                         Inl e \<Rightarrow> (t4, Inl e)
                       | Inr (Result_error err) \<Rightarrow> (t4, Inr (Result_error err))
                       | Inr (Result_ok tools) \<Rightarrow>
                           (let args = streamText_args (config r) languageModel (prompt a)
                                         (messages r) tools (abortSignal a) (schema a) (output' a);
                                t5 = t4 @ (if debugAI then converted_debug_info a r else [])
                                  @ [Invoke (StreamText args)] in
                            case streamTextFn args of
                              Inl e \<Rightarrow> (t5, Inl e)
                            | Inr result \<Rightarrow>
                                ( t5 @ (if debugAI
                                        then [Observe ''providerMetadata'', Observe ''finishReason'']
                                        else []),
                                  Inr (Result_ok
                                    (ai_return (resultType (schema a) (output' a))
                                       (providerType (provider a)) result)) ))))))"

text \<open>\<^verbatim>\<open>ai\<close>: the transport is resolved (lines 98--101), the flag is read (line 104),
  the block runs and whatever it throws goes to the Error Translator (lines 277--283).
  The second component is the outcome of the promise \<^verbatim>\<open>ai\<close> returns: \<open>Inr r\<close> when it
  is fulfilled with the typed result \<open>r\<close>, \<open>Inl e\<close> when it is rejected with \<open>e\<close>.\<close>

definition resolve_streamText :: "collaborators \<Rightarrow> PartialAISDKProvider option \<Rightarrow> streamTextFn" where
  "resolve_streamText deps sdk = (case sdk of
      None \<Rightarrow> originalStreamText deps
    | Some p \<Rightarrow> (case streamText p of None \<Rightarrow> originalStreamText deps | Some f \<Rightarrow> f))"

definition ai ::
    "string option \<Rightarrow> collaborators \<Rightarrow> ai_args
      \<Rightarrow> event list \<times> (thrown + (AIReturn, ChainError) TypedResult)" where
  "ai DEBUG_AI deps a =
     (let streamTextFn = resolve_streamText deps (aiSdkProvider a);
          debugAI = (DEBUG_AI = Some ''true'')
      in case ai_try debugAI streamTextFn deps a of
           (t, Inr r) \<Rightarrow> (t, Inr r)
         | (t, Inl e) \<Rightarrow>
             (let (t', r) = handleAICallAPIError DEBUG_AI e in
              ( t @ (if debugAI
                     then [ConsoleLog [Literal ''\<newline>=== AI Request Error ===''],
                           ConsoleLog [Literal ''Error:'', Caught e]]
                     else []) @ t',
                Inr r )))"

subsection \<open>Concrete runs\<close>

text \<open>A request with a system and a user message, an output schema and the output mode
  \<^verbatim>\<open>object\<close>, and collaborators that all succeed.\<close>

definition example_args :: ai_args where
  "example_args =
     \<lparr> context' = Handle 0,
       provider = \<lparr> providerType = ''openai'', apiKey = ''sk-test'', url = None \<rparr>,
       prompt = None,
       originalMessages =
         [ \<lparr> role = ''system'', content = ContentString ''You are a helpful assistant'' \<rparr>,
           \<lparr> role = ''user'', content = ContentArray
               [ \<lparr> type = ''text'', text' = Some ''Hello'', image = NoData, file' = NoData,
                   data = NoData, mimeType = None \<rparr> ] \<rparr> ],
       originalConfig =
         [ ''model'' \<mapsto> JStr ''gpt-4o'', ''temperature'' \<mapsto> JNum 0,
           ''schema'' \<mapsto> JObj [(''type'', JStr ''object'')] ],
       schema = Some [(''type'', JStr ''object'')],
       output' = Some OutputObject,
       aiSdkProvider = None,
       abortSignal = None \<rparr>"

definition passing_deps :: collaborators where
  "passing_deps =
     \<lparr> applyAllRules = (\<lambda>pt msgs cfg. Inr \<lparr> rules = [], messages = msgs, config = cfg \<rparr>),
       createProvider = (\<lambda>c msgs p k u cfg. Inr (Result_ok (Handle 1))),
       getLanguageModel = (\<lambda>llm p cfg m. Inr (Handle 2)),
       buildTools = (\<lambda>tools. Inr (Result_ok (Handle 3))),
       originalStreamText = (\<lambda>args. Inr (\<lambda>k. Handle 4)) \<rparr>"

text \<open>The same collaborators, with a Rule Engine that reports two violations.\<close>

definition violating_deps :: collaborators where
  "violating_deps =
     passing_deps
       \<lparr> applyAllRules := (\<lambda>pt msgs cfg. Inr
           \<lparr> rules =
               [ \<lparr> rule = ''AnthropicMultipleSystemMessagesUnsupported'',
                   ruleMessage = ''Only one system message is allowed'' \<rparr>,
                 \<lparr> rule = ''GoogleSingleStartingSystemMessageSupported'',
                   ruleMessage = ''Images are not supported'' \<rparr> ],
             messages = msgs, config = cfg \<rparr>) \<rparr>"

text \<open>The same collaborators, with a Tool Builder that fails.\<close>

definition tool_error :: ChainError where
  "tool_error = \<lparr> code = AIRunError, message = ''Tool parameters must be of type object'' \<rparr>"

definition failing_tools_deps :: collaborators where
  "failing_tools_deps = passing_deps \<lparr> buildTools := (\<lambda>tools. Inr (Result_error tool_error)) \<rparr>"





section \<open>Properties\<close>

subsection \<open>The Error Translator\<close>


subsection \<open>Events of a run\<close>

lemma invocations_append: "invocations (xs @ ys) = invocations xs @ invocations ys"
  by (induction xs rule: invocations.induct) simp_all

lemma Invoke_in_set: "Invoke c \<in> set es \<longleftrightarrow> c \<in> set (invocations es)"
  by (induction es rule: invocations.induct) auto

lemma invocations_logs:
  "invocations (request_debug_info a) = []"
  "invocations (converted_debug_info a r) = []"
  "invocations (api_error_details e) = []"
  by (simp_all add: request_debug_info_def converted_debug_info_def api_error_details_def
      split: thrown.splits)

lemma dispatched_logs:
  "filter dispatched (request_debug_info a) = []"
  "filter dispatched (converted_debug_info a r) = []"
  "filter dispatched (api_error_details e) = []"
  by (simp_all add: request_debug_info_def converted_debug_info_def api_error_details_def
      split: thrown.splits)

subsection \<open>Facts about the concrete runs\<close>

lemma violating_rules:
  "applyAllRules violating_deps (providerType (provider example_args))
     (originalMessages example_args) (originalConfig example_args) =
   Inr \<lparr> rules =
           [ \<lparr> rule = ''AnthropicMultipleSystemMessagesUnsupported'',
               ruleMessage = ''Only one system message is allowed'' \<rparr>,
             \<lparr> rule = ''GoogleSingleStartingSystemMessageSupported'',
               ruleMessage = ''Images are not supported'' \<rparr> ],
         messages = originalMessages example_args,
         config = originalConfig example_args \<rparr>"
  by (simp add: violating_deps_def passing_deps_def)

lemma passing_rules:
  "applyAllRules passing_deps (providerType (provider example_args))
     (originalMessages example_args) (originalConfig example_args) =
   Inr \<lparr> rules = [], messages = originalMessages example_args,
         config = originalConfig example_args \<rparr>"
  by (simp add: passing_deps_def)

lemma passing_run:
  "snd (ai None passing_deps example_args) =
     Inr (Result_ok (ai_return ObjectType ''openai'' (\<lambda>k. Handle 4)))"
  by (simp add: ai_def ai_try_def passing_deps_def example_args_def Let_def
      resolve_streamText_def resultType_def useSchema_def)

subsection \<open>Validation failures\<close>

text \<open>C1, as amended. Whenever the Rule Engine returns one or more violations, \<^verbatim>\<open>ai\<close>
  returns a run-error failure whose message is the line
  \<^verbatim>\<open>There are rule violations:\<close> followed by the violations' messages joined by newline,
  each prefixed \<^verbatim>\<open>- \<close>.\<close>

theorem ai_rule_violations:
  assumes "applyAllRules deps (providerType (provider a)) (originalMessages a)
             (originalConfig a) = Inr r"
    and "rules r \<noteq> []"
  shows "snd (ai D deps a) =
     Inr (Result_error
       \<lparr> code = AIRunError,
         message = ''There are rule violations:\<newline>''
           @ join ''\<newline>'' (map (\<lambda>v. ''- '' @ ruleMessage v) (rules r)) \<rparr>)"
  using assms by (simp add: ai_def ai_try_def rule_violations_message_def Let_def)

theorem ai_rule_violations_witness:
  "snd (ai None violating_deps example_args) =
     Inr (Result_error
       \<lparr> code = AIRunError,
         message = ''There are rule violations:\<newline>- Only one system message is allowed\<newline>- Images are not supported'' \<rparr>)"
  using ai_rule_violations [OF violating_rules, of None] by simp

text \<open>C1 as stated fails: with two violations the message is not the joined list of
  violations alone.\<close>

theorem ai_rule_violations_counterexample:
  "applyAllRules violating_deps (providerType (provider example_args))
     (originalMessages example_args) (originalConfig example_args) =
   Inr \<lparr> rules =
           [ \<lparr> rule = ''AnthropicMultipleSystemMessagesUnsupported'',
               ruleMessage = ''Only one system message is allowed'' \<rparr>,
             \<lparr> rule = ''GoogleSingleStartingSystemMessageSupported'',
               ruleMessage = ''Images are not supported'' \<rparr> ],
         messages = originalMessages example_args,
         config = originalConfig example_args \<rparr>
   \<and> snd (ai None violating_deps example_args) \<noteq>
     Inr (Result_error
       \<lparr> code = AIRunError,
         message = join ''\<newline>'' (map (\<lambda>v. ''- '' @ ruleMessage v)
           [ \<lparr> rule = ''AnthropicMultipleSystemMessagesUnsupported'',
               ruleMessage = ''Only one system message is allowed'' \<rparr>,
             \<lparr> rule = ''GoogleSingleStartingSystemMessageSupported'',
               ruleMessage = ''Images are not supported'' \<rparr> ]) \<rparr>)"
  using violating_rules
  by (simp add: ai_def ai_try_def violating_deps_def passing_deps_def Let_def
      rule_violations_message_def)

text \<open>C4. Whenever the Rule Engine returns one or more violations, the run calls no
  collaborator but the Rule Engine: \<^verbatim>\<open>createProvider\<close>, \<^verbatim>\<open>buildTools\<close> and
  \<^verbatim>\<open>streamText\<close> are not invoked.\<close>

theorem ai_rule_violations_no_dispatch:
  assumes "applyAllRules deps (providerType (provider a)) (originalMessages a)
             (originalConfig a) = Inr r"
    and "rules r \<noteq> []"
  shows "invocations (fst (ai D deps a)) = [ApplyAllRules]
     \<and> Invoke CreateProvider \<notin> set (fst (ai D deps a))
     \<and> Invoke BuildTools \<notin> set (fst (ai D deps a))
     \<and> filter dispatched (fst (ai D deps a)) = []"
  using assms by (simp add: ai_def ai_try_def request_debug_info_def Let_def)

theorem ai_rule_violations_no_dispatch_witness:
  "invocations (fst (ai (Some ''true'') violating_deps example_args)) = [ApplyAllRules]
     \<and> Invoke CreateProvider \<notin> set (fst (ai (Some ''true'') violating_deps example_args))
     \<and> Invoke BuildTools \<notin> set (fst (ai (Some ''true'') violating_deps example_args))
     \<and> filter dispatched (fst (ai (Some ''true'') violating_deps example_args)) = []"
  using ai_rule_violations_no_dispatch [OF violating_rules, of "Some ''true''"] by simp

subsection \<open>The success value\<close>

lemma ai_ok_value:
  "snd (ai D deps a) = Inr (Result_ok v) \<Longrightarrow>
   \<exists>result. v = ai_return (resultType (schema a) (output' a)) (providerType (provider a)) result"
  by (auto simp add: ai_def ai_try_def handleAICallAPIError_def Let_def
      split: sum.splits TypedResult.splits prod.splits if_splits)

lemma resultType_iff:
  "resultType sch out =
     (if sch \<noteq> None \<and> (out = Some OutputObject \<or> out = Some OutputArray)
      then ObjectType else TextType)"
  by (cases out; cases "the out") (auto simp: resultType_def useSchema_def)

lemma dom_ai_return:
  "dom (ai_return t n r) =
     {''type'', ''providerName'', ''fullStream'', ''text'', ''reasoning'', ''usage'',
      ''toolCalls'', ''providerMetadata'', ''sources'', ''finishReason'', ''response''}"
  unfolding ai_return_def dom_fun_upd by auto

text \<open>C2. The tag \<^verbatim>\<open>type\<close> of a successful result is \<^verbatim>\<open>object\<close> if and only if a schema
  is present and the output mode is \<^verbatim>\<open>object\<close> or \<^verbatim>\<open>array\<close>; otherwise it is
  \<^verbatim>\<open>text\<close>. The tag is a function of the schema and the output mode alone: neither the
  provider nor any collaborator enters it.\<close>

theorem ai_resultType:
  assumes "snd (ai D deps a) = Inr (Result_ok v)"
  shows "v ''type'' = Some (ResultTypeTag
     (if schema a \<noteq> None \<and> (output' a = Some OutputObject \<or> output' a = Some OutputArray)
      then ObjectType else TextType))"
proof -
  from assms obtain result where
    "v = ai_return (resultType (schema a) (output' a)) (providerType (provider a)) result"
    using ai_ok_value by blast
  then show ?thesis by (simp add: ai_return_def resultType_iff)
qed

theorem ai_resultType_witness:
  "snd (ai None passing_deps example_args) =
     Inr (Result_ok (ai_return ObjectType ''openai'' (\<lambda>k. Handle 4)))
   \<and> ai_return ObjectType ''openai'' (\<lambda>k. Handle 4) ''type'' = Some (ResultTypeTag ObjectType)"
  using ai_resultType [OF passing_run] passing_run by (simp add: example_args_def)

text \<open>C10. The success value has exactly the keys \<^verbatim>\<open>type\<close>, \<^verbatim>\<open>providerName\<close>,
  \<^verbatim>\<open>fullStream\<close>, \<^verbatim>\<open>text\<close>, \<^verbatim>\<open>reasoning\<close>, \<^verbatim>\<open>usage\<close>, \<^verbatim>\<open>toolCalls\<close>,
  \<^verbatim>\<open>providerMetadata\<close>, \<^verbatim>\<open>sources\<close>, \<^verbatim>\<open>finishReason\<close> and \<^verbatim>\<open>response\<close>; it has no key
  \<^verbatim>\<open>object\<close>, in structured-object mode as in text mode.\<close>

theorem ai_return_fields:
  assumes "snd (ai D deps a) = Inr (Result_ok v)"
  shows "dom v =
       {''type'', ''providerName'', ''fullStream'', ''text'', ''reasoning'', ''usage'',
        ''toolCalls'', ''providerMetadata'', ''sources'', ''finishReason'', ''response''}
     \<and> v ''object'' = None"
proof -
  from assms obtain result where
    v: "v = ai_return (resultType (schema a) (output' a)) (providerType (provider a)) result"
    using ai_ok_value by blast
  have "v ''object'' = None"
    unfolding v by (simp add: ai_return_def)
  with v show ?thesis by (simp add: dom_ai_return)
qed

theorem ai_return_fields_witness:
  "dom (ai_return ObjectType ''openai'' (\<lambda>k. Handle 4)) =
       {''type'', ''providerName'', ''fullStream'', ''text'', ''reasoning'', ''usage'',
        ''toolCalls'', ''providerMetadata'', ''sources'', ''finishReason'', ''response''}
     \<and> ai_return ObjectType ''openai'' (\<lambda>k. Handle 4) ''object'' = None"
  by (rule ai_return_fields [OF passing_run])

subsection \<open>Tool Builder failures\<close>

lemma failing_tools_rules:
  "applyAllRules failing_tools_deps (providerType (provider example_args))
     (originalMessages example_args) (originalConfig example_args) =
   Inr \<lparr> rules = [], messages = originalMessages example_args,
         config = originalConfig example_args \<rparr>"
  by (simp add: failing_tools_deps_def passing_deps_def)

lemma failing_tools:
  "buildTools failing_tools_deps
     (config \<lparr> rules = [], messages = originalMessages example_args,
              config = originalConfig example_args \<rparr> ''tools'') =
   Inr (Result_error tool_error)"
  by (simp add: failing_tools_deps_def passing_deps_def)

lemma failing_tools_reached:
  "Invoke BuildTools \<in> set (fst (ai None failing_tools_deps example_args))"
  by (simp add: ai_def ai_try_def failing_tools_deps_def passing_deps_def Let_def)

text \<open>C5. When the Tool Builder fails on the tool schemas of the request, the run
  performs no dispatch (\<^verbatim>\<open>streamText\<close> is not invoked); and when the run reaches the
  Tool Builder, \<^verbatim>\<open>ai\<close> returns the Tool Builder's error itself, unchanged.\<close>

theorem ai_buildTools_error:
  assumes "applyAllRules deps (providerType (provider a)) (originalMessages a)
             (originalConfig a) = Inr r"
    and "buildTools deps (config r ''tools'') = Inr (Result_error err)"
  shows "filter dispatched (fst (ai D deps a)) = []
     \<and> (Invoke BuildTools \<in> set (fst (ai D deps a))
          \<longrightarrow> snd (ai D deps a) = Inr (Result_error err))"
  using assms
  by (simp add: ai_def ai_try_def handleAICallAPIError_def Let_def Invoke_in_set
      invocations_append invocations_logs dispatched_logs
      split: sum.splits TypedResult.splits prod.splits)

theorem ai_buildTools_error_witness:
  "filter dispatched (fst (ai None failing_tools_deps example_args)) = []
   \<and> Invoke BuildTools \<in> set (fst (ai None failing_tools_deps example_args))
   \<and> snd (ai None failing_tools_deps example_args) = Inr (Result_error tool_error)"
  using ai_buildTools_error [OF failing_tools_rules failing_tools, of None]
    failing_tools_reached
  by simp

subsection \<open>Exceptions\<close>



subsection \<open>The argument of the dispatch\<close>

lemma dispatch_args:
  assumes "Invoke (StreamText args) \<in> set (fst (ai D deps a))"
  shows "\<exists>r languageModel tools.
      applyAllRules deps (providerType (provider a)) (originalMessages a) (originalConfig a)
        = Inr r
    \<and> args = streamText_args (config r) languageModel (prompt a) (messages r) tools
               (abortSignal a) (schema a) (output' a)"
  using assms
  by (auto simp add: ai_def ai_try_def handleAICallAPIError_def Let_def Invoke_in_set
      invocations_append invocations_logs
      split: sum.splits TypedResult.splits prod.splits if_splits)
    blast+

lemma streamText_args_spread:
  "k \<notin> {''schema'', ''model'', ''prompt'', ''messages'', ''tools'', ''abortSignal'',
         ''providerOptions'', ''experimental_telemetry'', ''experimental_transform'',
         ''experimental_output''}
   \<Longrightarrow> streamText_args cfg lm p msgs tools sig sch out k = map_option ConfigField (cfg k)"
  by (simp add: streamText_args_def restrict_map_def)

lemma streamText_args_schema:
  "streamText_args cfg lm p msgs tools sig sch out ''schema'' = None"
  by (simp add: streamText_args_def restrict_map_def)

lemma streamText_args_providerOptions:
  "streamText_args cfg lm p msgs tools sig sch out ''providerOptions'' =
     Some (ProviderOptions (cfg ''providerOptions''))"
  by (simp add: streamText_args_def)

lemma passing_dispatch:
  "Invoke (StreamText (streamText_args (originalConfig example_args) (Handle 2) None
       (originalMessages example_args) (Handle 3) None (schema example_args)
       (output' example_args)))
     \<in> set (fst (ai None passing_deps example_args))"
  by (simp add: ai_def ai_try_def passing_deps_def Let_def resolve_streamText_def
      example_args_def)

text \<open>C7, as amended. The object passed to \<^verbatim>\<open>streamText\<close> has no key \<^verbatim>\<open>schema\<close>, and
  every key of the rule-transformed configuration other than \<^verbatim>\<open>schema\<close> and the keys
  the call sets itself (\<^verbatim>\<open>model\<close>, \<^verbatim>\<open>prompt\<close>, \<^verbatim>\<open>messages\<close>, \<^verbatim>\<open>tools\<close>,
  \<^verbatim>\<open>abortSignal\<close>, \<^verbatim>\<open>providerOptions\<close>, \<^verbatim>\<open>experimental_telemetry\<close>,
  \<^verbatim>\<open>experimental_transform\<close>, \<^verbatim>\<open>experimental_output\<close>) is passed with the value the
  configuration gives it; \<^verbatim>\<open>providerOptions\<close> is passed with the configuration's
  value.\<close>

theorem streamText_config_passthrough:
  assumes "Invoke (StreamText args) \<in> set (fst (ai D deps a))"
  shows "\<exists>r. applyAllRules deps (providerType (provider a)) (originalMessages a)
               (originalConfig a) = Inr r
     \<and> args ''schema'' = None
     \<and> args ''providerOptions'' = Some (ProviderOptions (config r ''providerOptions''))
     \<and> (\<forall>k. k \<notin> {''schema'', ''model'', ''prompt'', ''messages'', ''tools'', ''abortSignal'',
                  ''providerOptions'', ''experimental_telemetry'', ''experimental_transform'',
                  ''experimental_output''}
          \<longrightarrow> args k = map_option ConfigField (config r k))"
proof -
  from dispatch_args [OF assms] obtain r languageModel tools where
    r: "applyAllRules deps (providerType (provider a)) (originalMessages a) (originalConfig a)
          = Inr r"
    and args: "args = streamText_args (config r) languageModel (prompt a) (messages r) tools
               (abortSignal a) (schema a) (output' a)"
    by blast
  show ?thesis
    using r streamText_args_spread unfolding args
    by (intro exI [of _ r] conjI allI impI)
       (simp_all only: streamText_args_schema streamText_args_providerOptions)
qed

theorem streamText_config_passthrough_witness:
  "streamText_args (originalConfig example_args) (Handle 2) None
       (originalMessages example_args) (Handle 3) None (schema example_args)
       (output' example_args) ''schema'' = None
   \<and> streamText_args (originalConfig example_args) (Handle 2) None
       (originalMessages example_args) (Handle 3) None (schema example_args)
       (output' example_args) ''temperature'' = Some (ConfigField (JNum 0))"
proof -
  from streamText_config_passthrough [OF passing_dispatch] passing_rules
  have "streamText_args (originalConfig example_args) (Handle 2) None
       (originalMessages example_args) (Handle 3) None (schema example_args)
       (output' example_args) ''schema'' = None"
   and "\<forall>k. k \<notin> {''schema'', ''model'', ''prompt'', ''messages'', ''tools'', ''abortSignal'',
                  ''providerOptions'', ''experimental_telemetry'', ''experimental_transform'',
                  ''experimental_output''}
          \<longrightarrow> streamText_args (originalConfig example_args) (Handle 2) None
                 (originalMessages example_args) (Handle 3) None (schema example_args)
                 (output' example_args) k
               = map_option ConfigField (originalConfig example_args k)"
    by auto
  from this(1) this(2) [rule_format, of "''temperature''"]
  show ?thesis by (simp add: example_args_def)
qed

text \<open>C7 as stated fails: in the run of \<open>example_args\<close> the configuration's field
  \<^verbatim>\<open>model\<close> is the string \<^verbatim>\<open>gpt-4o\<close>, and the object passed to \<^verbatim>\<open>streamText\<close> has
  the resolved language model under that key.\<close>

theorem streamText_config_passthrough_counterexample:
  "Invoke (StreamText (streamText_args (originalConfig example_args) (Handle 2) None
       (originalMessages example_args) (Handle 3) None (schema example_args)
       (output' example_args)))
     \<in> set (fst (ai None passing_deps example_args))
   \<and> streamText_args (originalConfig example_args) (Handle 2) None
       (originalMessages example_args) (Handle 3) None (schema example_args)
       (output' example_args) ''model''
      = Some (LanguageModel (Handle 2))
   \<and> map_option ConfigField (originalConfig example_args ''model'')
      = Some (ConfigField (JStr ''gpt-4o''))"
  using passing_dispatch by (simp add: streamText_args_def example_args_def)

subsection \<open>The diagnostic channel\<close>








end
